theory Spec2Isabelle
  imports Complex_Main
begin

section \<open>IdleMover (modules/IdleMover/main.py): data model\<close>

text \<open>
  A row of a ServerQuery answer is a Python dict from field names to strings;
  \<open>d k = None\<close> says that the key is absent (\<open>d.get(k)\<close> is Python's None).
\<close>

type_synonym pydict = "string \<rightharpoonup> string"

text \<open>
  The exceptions that the module raises or handles. \<open>TS3QueryException id message\<close> is the
  library's protocol error and a subclass of its \<open>TS3Exception\<close>; the constructor
  \<open>TS3Exception\<close> stands for every other exception of that class (a closed connection,
  a timeout). The remaining constructors are Python's built-in exceptions.
\<close>

datatype exc =
    TS3QueryException int string
  | TS3Exception
  | AttributeError
  | IndexError
  | KeyError
  | TypeError
  | ValueError
  | UnboundLocalError

text \<open>\<open>except TS3Exception\<close> and \<open>except TS3QueryException\<close>.\<close>

fun is_TS3Exception :: "exc \<Rightarrow> bool" where
  "is_TS3Exception (TS3QueryException i m) = True"
| "is_TS3Exception TS3Exception = True"
| "is_TS3Exception e = False"

fun is_TS3QueryException :: "exc \<Rightarrow> bool" where
  "is_TS3QueryException (TS3QueryException i m) = True"
| "is_TS3QueryException e = False"

subsection \<open>Python's int(), str() and split(',') on the strings of the protocol\<close>

definition is_space :: "char \<Rightarrow> bool" where
  "is_space c = (c \<in> set [CHR 0x20, CHR 0x09, CHR 0x0A, CHR 0x0B, CHR 0x0C, CHR 0x0D,
                           CHR 0x1C, CHR 0x1D, CHR 0x1E, CHR 0x1F])"

definition strip :: "string \<Rightarrow> string" where
  "strip s = rev (dropWhile is_space (rev (dropWhile is_space s)))"

definition digit_of :: "char \<Rightarrow> nat option" where
  "digit_of = map_of [(CHR ''0'', 0), (CHR ''1'', 1), (CHR ''2'', 2), (CHR ''3'', 3),
     (CHR ''4'', 4), (CHR ''5'', 5), (CHR ''6'', 6), (CHR ''7'', 7), (CHR ''8'', 8),
     (CHR ''9'', 9)]"

text \<open>
  The digits of a decimal literal, read left to right into the accumulator; a single
  underscore is allowed between two digits, as in Python.
\<close>

fun parse_digits :: "string \<Rightarrow> nat \<Rightarrow> nat option" where
  "parse_digits [] acc = Some acc"
| "parse_digits (c # cs) acc =
     (case digit_of c of
        Some d \<Rightarrow> parse_digits cs (10 * acc + d)
      | None \<Rightarrow>
          if c = CHR ''_'' then
            (case cs of
               [] \<Rightarrow> None
             | d # ds \<Rightarrow> (case digit_of d of None \<Rightarrow> None | Some v \<Rightarrow> parse_digits cs acc))
          else None)"

text \<open>
  \<open>int(s)\<close> for a string: surrounding blanks are dropped, then an optional sign and a
  non-empty decimal literal; anything else raises ValueError. (The strings here are
  bytes, so blanks and digits outside ASCII are not recognised.)
\<close>

definition py_int :: "string \<Rightarrow> exc + int" where
  "py_int s =
     (case strip s of
        [] \<Rightarrow> Inl ValueError
      | c # cs \<Rightarrow>
          (let neg = (c = CHR ''-'');
               body = (if c = CHR ''-'' \<or> c = CHR ''+'' then cs else c # cs)
           in case body of
                [] \<Rightarrow> Inl ValueError
              | d # ds \<Rightarrow>
                  (case digit_of d of
                     None \<Rightarrow> Inl ValueError
                   | Some v \<Rightarrow>
                       (case parse_digits body 0 of
                          None \<Rightarrow> Inl ValueError
                        | Some n \<Rightarrow> Inr (if neg then - int n else int n)))))"

text \<open>\<open>int(d.get(k))\<close>: \<open>int(None)\<close> raises TypeError.\<close>

definition py_int_opt :: "string option \<Rightarrow> exc + int" where
  "py_int_opt v = (case v of None \<Rightarrow> Inl TypeError | Some s \<Rightarrow> py_int s)"

fun str_nat :: "nat \<Rightarrow> string" where
  "str_nat n = (if n < 10 then [''0123456789'' ! n]
                else str_nat (n div 10) @ [''0123456789'' ! (n mod 10)])"

declare str_nat.simps [simp del]

text \<open>\<open>str(n)\<close> for an int.\<close>

definition py_str :: "int \<Rightarrow> string" where
  "py_str i = (if i < 0 then CHR ''-'' # str_nat (nat (- i)) else str_nat (nat i))"

text \<open>The text that an f-string puts for \<open>d.get(k)\<close>.\<close>

definition py_fstr :: "string option \<Rightarrow> string" where
  "py_fstr v = (case v of None \<Rightarrow> ''None'' | Some s \<Rightarrow> s)"

text \<open>\<open>s.split(',')\<close>.\<close>

fun split_comma :: "string \<Rightarrow> string list" where
  "split_comma [] = [[]]"
| "split_comma (c # cs) =
     (if c = CHR '','' then [] # split_comma cs
      else (case split_comma cs of [] \<Rightarrow> [[c]] | w # ws \<Rightarrow> (c # w) # ws))"

text \<open>Reading a local variable: a name that no assignment has bound raises.\<close>

definition read_local :: "'a option \<Rightarrow> exc + 'a" where
  "read_local v = (case v of None \<Rightarrow> Inl UnboundLocalError | Some x \<Rightarrow> Inr x)"

subsection \<open>Configuration, connection and the mover's state\<close>

text \<open>
  The module-level options set by \<open>setup\<close>. \<open>fallback_channel\<close> is the global
  \<open>fallback_action\<close> (the method of that name is \<open>fallback_action\<close> below).
  \<open>idle_time_seconds\<close> is the value of \<open>float(idle_time_seconds)\<close>. Python computes
  \<open>int(...) / 1000\<close> and the comparison with it in binary floating point; the model takes the
  quotient and the comparison in the reals.
\<close>

record config =
  dry_run :: bool
  servergroups_to_exclude :: "string option"
  enable_auto_move_back :: bool
  resp_channel_settings :: bool
  fallback_channel :: "string option"
  idle_time_seconds :: real
  channel_name :: string

text \<open>The commands that the module sends over \<open>ts3conn\<close>; the channel of a move is as on the wire.\<close>

datatype call =
    ClientList
  | ServerGroupList
  | ServerGroupsByClientId string
  | ChannelFind string
  | ChannelList
  | ChannelInfo int
  | ClientMove string int

text \<open>
  The session so far: every command sent, in order, with whether it returned without
  raising. The server's answer to a command may depend on all of it.
\<close>

type_synonym history = "(call \<times> bool) list"

record ts3conn =
  clientlist :: "history \<Rightarrow> exc + pydict list"
  servergrouplist :: "history \<Rightarrow> exc + pydict list"
  servergroupsbyclientid :: "history \<Rightarrow> string \<Rightarrow> exc + pydict list"
  channelfind :: "history \<Rightarrow> string \<Rightarrow> exc + pydict list"
  channellist :: "history \<Rightarrow> exc + pydict list"
  channelinfo :: "history \<Rightarrow> int \<Rightarrow> exc + pydict"
  clientmove :: "history \<Rightarrow> string \<Rightarrow> int \<Rightarrow> exc + unit"

text \<open>
  The logger's level is INFO, so \<open>logger.debug\<close> writes nothing and is left out.
  \<open>EXCEPTION\<close> marks \<open>logger.exception\<close> (level ERROR, with the traceback). A record
  keeps the fixed text of the message.
\<close>

datatype level = INFO | WARNING | ERROR | EXCEPTION

text \<open>
  The IdleMover object. \<open>client_channels\<close> is the Tracking Store (clid to the cid the
  client came from). \<open>sent\<close> and \<open>logged\<close> are the history of the connection and the
  log file.
\<close>

record mover =
  afk_channel :: string
  client_channels :: "string \<rightharpoonup> string"
  servergroup_ids_to_ignore :: "string option list"
  idle_list :: "pydict list option"
  sent :: history
  logged :: "(level \<times> string) list"

definition log_msg :: "level \<Rightarrow> string \<Rightarrow> mover \<Rightarrow> mover" where
  "log_msg l m st = st\<lparr>logged := logged st @ [(l, m)]\<rparr>"

definition record_sent :: "call \<Rightarrow> exc + 'a \<Rightarrow> mover \<Rightarrow> mover" where
  "record_sent c r st = st\<lparr>sent := sent st @ [(c, \<not> isl r)]\<rparr>"


text \<open>\<open>d.get(k, default)\<close>.\<close>

definition py_get :: "pydict \<Rightarrow> string \<Rightarrow> string \<Rightarrow> string" where
  "py_get d k dflt = (case d k of None \<Rightarrow> dflt | Some v \<Rightarrow> v)"

section \<open>The methods of IdleMover\<close>

subsection \<open>update_client_list (lines 75-92)\<close>

text \<open>
  The loop of lines 82-87 appends to \<open>self.idle_list\<close>; when \<open>int\<close> raises, the clients
  appended so far stay in the list.
\<close>

fun update_client_list_loop :: "pydict list \<Rightarrow> pydict list \<Rightarrow> (exc + unit) \<times> pydict list" where
  "update_client_list_loop [] acc = (Inr (), acc)"
| "update_client_list_loop (client # rest) acc =
     (case py_int_opt (client ''client_type'') of
        Inl e \<Rightarrow> (Inl e, acc)
      | Inr t \<Rightarrow> update_client_list_loop rest (if t = 1 then acc else acc @ [client]))"

definition update_client_list :: "ts3conn \<Rightarrow> mover \<Rightarrow> (exc + unit) \<times> mover" where
  "update_client_list conn st =
     (let st0 = st\<lparr>idle_list := Some []\<rparr>;
          r = clientlist conn (sent st0);
          st1 = record_sent ClientList r st0
      in case r of
           Inl e \<Rightarrow>
             if is_TS3Exception e
             then (Inr (), (log_msg EXCEPTION ''Error getting away list!'' st1)\<lparr>idle_list := Some []\<rparr>)
             else (Inl e, st1)
         | Inr clients \<Rightarrow>
             (case update_client_list_loop clients [] of
                (res, acc) \<Rightarrow> (res, st1\<lparr>idle_list := Some acc\<rparr>)))"

subsection \<open>update_servergroup_ids_list (lines 95-113)\<close>

text \<open>
  \<open>servergroup_list\<close> is a local variable: the handler of line 107 logs and binds nothing,
  and line 111 reads the variable.
\<close>

definition update_servergroup_ids_list :: "config \<Rightarrow> ts3conn \<Rightarrow> mover \<Rightarrow> (exc + unit) \<times> mover" where
  "update_servergroup_ids_list cfg conn st =
     (let st0 = st\<lparr>servergroup_ids_to_ignore := []\<rparr>
      in case servergroups_to_exclude cfg of
           None \<Rightarrow> (Inr (), st0)
         | Some names \<Rightarrow>
             (let r = servergrouplist conn (sent st0);
                  st1 = record_sent ServerGroupList r st0
              in case r of
                   Inl e \<Rightarrow>
                     if is_TS3QueryException e
                     then (let st2 = log_msg EXCEPTION ''Failed to get the list of available servergroups.'' st1;
                               servergroup_list = (None :: pydict list option);
                               st3 = st2\<lparr>servergroup_ids_to_ignore := []\<rparr>
                           in case read_local servergroup_list of
                                Inl e' \<Rightarrow> (Inl e', st3)
                              | Inr groups \<Rightarrow>
                                  (Inr (), st3\<lparr>servergroup_ids_to_ignore :=
                                     map (\<lambda>g. g ''sgid'')
                                       (filter (\<lambda>g. case g ''name'' of None \<Rightarrow> False
                                                    | Some n \<Rightarrow> n \<in> set (split_comma names)) groups)\<rparr>))
                     else (Inl e, st1)
                 | Inr servergroup_list \<Rightarrow>
                     (Inr (), st1\<lparr>servergroup_ids_to_ignore :=
                        map (\<lambda>g. g ''sgid'')
                          (filter (\<lambda>g. case g ''name'' of None \<Rightarrow> False
                                       | Some n \<Rightarrow> n \<in> set (split_comma names)) servergroup_list)\<rparr>)))"

subsection \<open>get_servergroups_by_client (lines 116-135)\<close>

definition get_servergroups_by_client ::
  "ts3conn \<Rightarrow> string option \<Rightarrow> mover \<Rightarrow> (exc + string option list) \<times> mover" where
  "get_servergroups_by_client conn cldbid st =
     (let r = servergroupsbyclientid conn (sent st) (py_fstr cldbid);
          st1 = record_sent (ServerGroupsByClientId (py_fstr cldbid)) r st
      in case r of
           Inl e \<Rightarrow>
             if is_TS3QueryException e
             then (Inr [], log_msg EXCEPTION
                             ''Failed to get the list of assigned servergroups for the client cldbid='' st1)
             else (Inl e, st1)
         | Inr client_servergroups \<Rightarrow> (Inr (map (\<lambda>g. g ''sgid'') client_servergroups), st1))"

subsection \<open>get_idle_list (lines 138-189)\<close>

text \<open>Lines 158-167: is the client in a server group that is to be ignored?\<close>

definition client_is_in_group :: "config \<Rightarrow> ts3conn \<Rightarrow> pydict \<Rightarrow> mover \<Rightarrow> (exc + bool) \<times> mover" where
  "client_is_in_group cfg conn client st =
     (case servergroups_to_exclude cfg of
        None \<Rightarrow> (Inr False, st)
      | Some names \<Rightarrow>
          (case get_servergroups_by_client conn (client ''client_database_id'') st of
             (Inl e, st1) \<Rightarrow> (Inl e, st1)
           | (Inr ids, st1) \<Rightarrow>
               (Inr (list_ex (\<lambda>i. i \<in> set (servergroup_ids_to_ignore st1)) ids), st1)))"

text \<open>The body of the loop of lines 147-182 for one client: True when the client is appended.\<close>

definition get_idle_list_client :: "config \<Rightarrow> ts3conn \<Rightarrow> pydict \<Rightarrow> mover \<Rightarrow> (exc + bool) \<times> mover" where
  "get_idle_list_client cfg conn client st =
     (case client ''cid'' of
        None \<Rightarrow> (Inr False, log_msg ERROR ''get_idle_list client without cid: '' st)
      | Some cid \<Rightarrow>
          if client ''client_type'' = Some ''1'' then (Inr False, st)
          else
            (case client_is_in_group cfg conn client st of
               (Inl e, st1) \<Rightarrow> (Inl e, st1)
             | (Inr in_group, st1) \<Rightarrow>
                 if in_group then (Inr False, st1)
                 else
                   (case client ''client_idle_time'' of
                      None \<Rightarrow> (Inr False, log_msg ERROR ''get_idle_list client without client_idle_time: '' st1)
                    | Some idle \<Rightarrow>
                        (case py_int cid of
                           Inl e \<Rightarrow> (Inl e, st1)
                         | Inr c \<Rightarrow>
                             (case py_int (afk_channel st1) of
                                Inl e \<Rightarrow> (Inl e, st1)
                              | Inr a \<Rightarrow>
                                  if c = a then (Inr False, st1)
                                  else
                                    (case py_int idle of
                                       Inl e \<Rightarrow> (Inl e, st1)
                                     | Inr t \<Rightarrow>
                                         if real_of_int t / 1000 \<le> idle_time_seconds cfg
                                         then (Inr False, st1)
                                         else (Inr True, st1)))))))"

fun get_idle_list_loop ::
  "config \<Rightarrow> ts3conn \<Rightarrow> pydict list \<Rightarrow> pydict list \<Rightarrow> mover \<Rightarrow> (exc + pydict list) \<times> mover" where
  "get_idle_list_loop cfg conn [] acc st = (Inr acc, st)"
| "get_idle_list_loop cfg conn (client # rest) acc st =
     (case get_idle_list_client cfg conn client st of
        (Inl e, st1) \<Rightarrow> (Inl e, st1)
      | (Inr keep, st1) \<Rightarrow>
          get_idle_list_loop cfg conn rest (if keep then acc @ [client] else acc) st1)"

definition get_idle_list :: "config \<Rightarrow> ts3conn \<Rightarrow> mover \<Rightarrow> (exc + pydict list) \<times> mover" where
  "get_idle_list cfg conn st =
     (case idle_list st of
        None \<Rightarrow> (Inr [], st)
      | Some clients \<Rightarrow> get_idle_list_loop cfg conn clients [] st)"

subsection \<open>get_back_list (lines 191-224)\<close>

definition get_back_list_client :: "config \<Rightarrow> pydict \<Rightarrow> mover \<Rightarrow> (exc + bool) \<times> mover" where
  "get_back_list_client cfg client st =
     (case client ''cid'' of
        None \<Rightarrow> (Inr False, log_msg ERROR ''get_back_list client without cid: '' st)
      | Some cid \<Rightarrow>
          (case client ''client_idle_time'' of
             None \<Rightarrow> (Inr False, log_msg ERROR ''get_back_list client without client_idle_time: '' st)
           | Some idle \<Rightarrow>
               (case py_int cid of
                  Inl e \<Rightarrow> (Inl e, st)
                | Inr c \<Rightarrow>
                    (case py_int (afk_channel st) of
                       Inl e \<Rightarrow> (Inl e, st)
                     | Inr a \<Rightarrow>
                         if c \<noteq> a then (Inr False, st)
                         else
                           (case py_int idle of
                              Inl e \<Rightarrow> (Inl e, st)
                            | Inr t \<Rightarrow>
                                if real_of_int t / 1000 > idle_time_seconds cfg
                                then (Inr False, st)
                                else (Inr True, st))))))"

fun get_back_list_loop ::
  "config \<Rightarrow> pydict list \<Rightarrow> pydict list \<Rightarrow> mover \<Rightarrow> (exc + pydict list) \<times> mover" where
  "get_back_list_loop cfg [] acc st = (Inr acc, st)"
| "get_back_list_loop cfg (client # rest) acc st =
     (case get_back_list_client cfg client st of
        (Inl e, st1) \<Rightarrow> (Inl e, st1)
      | (Inr keep, st1) \<Rightarrow>
          get_back_list_loop cfg rest (if keep then acc @ [client] else acc) st1)"

definition get_back_list :: "config \<Rightarrow> mover \<Rightarrow> (exc + pydict list) \<times> mover" where
  "get_back_list cfg st =
     (case idle_list st of
        None \<Rightarrow> (Inr [], st)
      | Some clients \<Rightarrow> get_back_list_loop cfg clients [] st)"

subsection \<open>get_channel_by_name (lines 226-237)\<close>

definition get_channel_by_name :: "ts3conn \<Rightarrow> string \<Rightarrow> mover \<Rightarrow> (exc + string) \<times> mover" where
  "get_channel_by_name conn name st =
     (let r = channelfind conn (sent st) name;
          st1 = record_sent (ChannelFind name) r st
      in case r of
           Inl e \<Rightarrow>
             (Inl e, if is_TS3Exception e then log_msg EXCEPTION ''Error getting afk channel'' st1
                     else st1)
         | Inr found \<Rightarrow>
             (case found of
                [] \<Rightarrow> (Inl IndexError, st1)
              | channel # others \<Rightarrow> (Inr (py_get channel ''cid'' ''-1''), st1)))"

subsection \<open>move_to_afk and move_all_afk (lines 239-272)\<close>

fun move_to_afk_loop :: "config \<Rightarrow> ts3conn \<Rightarrow> pydict list \<Rightarrow> mover \<Rightarrow> (exc + unit) \<times> mover" where
  "move_to_afk_loop cfg conn [] st = (Inr (), st)"
| "move_to_afk_loop cfg conn (client # rest) st =
     (if dry_run cfg
      then move_to_afk_loop cfg conn rest (log_msg INFO ''I would have moved this client: '' st)
      else
        (let st1 = log_msg INFO ''Moving somebody to afk!'' st
         in case py_int (py_get client ''clid'' ''-1'') of
              Inl e \<Rightarrow> (Inl e, st1)
            | Inr clid \<Rightarrow>
                (let r = clientmove conn (sent st1) (afk_channel st1) clid;
                     st2 = record_sent (ClientMove (afk_channel st1) clid) r st1
                 in case r of
                      Inr u \<Rightarrow>
                        move_to_afk_loop cfg conn rest
                          (st2\<lparr>client_channels :=
                                 (client_channels st2)(py_get client ''clid'' ''-1'' \<mapsto>
                                                       py_get client ''cid'' ''0'')\<rparr>)
                    | Inl e \<Rightarrow>
                        if is_TS3Exception e
                        then move_to_afk_loop cfg conn rest
                               (log_msg EXCEPTION ''Error moving client! Clid='' st2)
                        else (Inl e, st2))))"

definition move_to_afk :: "config \<Rightarrow> ts3conn \<Rightarrow> mover \<Rightarrow> (exc + unit) \<times> mover" where
  "move_to_afk cfg conn st =
     (case get_idle_list cfg conn st of
        (Inl e, st1) \<Rightarrow> (Inl e, st1)
      | (Inr idle, st1) \<Rightarrow> move_to_afk_loop cfg conn idle st1)"

definition move_all_afk :: "config \<Rightarrow> ts3conn \<Rightarrow> mover \<Rightarrow> (exc + unit) \<times> mover" where
  "move_all_afk cfg conn st =
     (case move_to_afk cfg conn st of
        (Inl e, st1) \<Rightarrow>
          if e = AttributeError then (Inr (), log_msg EXCEPTION ''Connection error!'' st1)
          else (Inl e, st1)
      | (Inr u, st1) \<Rightarrow> (Inr (), st1))"

subsection \<open>fallback_action (lines 274-291)\<close>

text \<open>The two handlers of lines 288-291; any other exception leaves the method.\<close>

definition fallback_except :: "exc \<Rightarrow> mover \<Rightarrow> (exc + unit) \<times> mover" where
  "fallback_except e st =
     (if e = KeyError then (Inr (), log_msg ERROR ''Error moving client! clid='' st)
      else if is_TS3Exception e then (Inr (), log_msg EXCEPTION ''Error moving client! clid='' st)
      else (Inl e, st))"

definition fallback_action :: "config \<Rightarrow> ts3conn \<Rightarrow> int \<Rightarrow> mover \<Rightarrow> (exc + unit) \<times> mover" where
  "fallback_action cfg conn client_id st =
     (case fallback_channel cfg of
        None \<Rightarrow> (Inr (), st)
      | Some name \<Rightarrow>
          if name = ''None'' then (Inr (), st)
          else
            (case get_channel_by_name conn name st of
               (Inl e, st1) \<Rightarrow> fallback_except e st1
             | (Inr channel, st1) \<Rightarrow>
                 (let r = clientmove conn (sent st1) channel client_id;
                      st2 = record_sent (ClientMove channel client_id) r st1
                  in case r of
                       Inl e \<Rightarrow> fallback_except e st2
                     | Inr u \<Rightarrow>
                         (case client_channels st2 (py_str client_id) of
                            None \<Rightarrow> fallback_except KeyError st2
                          | Some v \<Rightarrow>
                              (Inr (), st2\<lparr>client_channels :=
                                             (client_channels st2)(py_str client_id := None)\<rparr>)))))"

subsection \<open>move_all_back (lines 293-365)\<close>

text \<open>Lines 331-335: the first row of the channel list with the origin's cid.\<close>

fun find_channel :: "pydict list \<Rightarrow> int \<Rightarrow> exc + pydict option" where
  "find_channel [] channel_id = Inr None"
| "find_channel (channel # rest) channel_id =
     (case channel ''cid'' of
        None \<Rightarrow> Inl KeyError
      | Some v \<Rightarrow>
          (case py_int v of
             Inl e \<Rightarrow> Inl e
           | Inr c \<Rightarrow> if c = channel_id then Inr (Some channel) else find_channel rest channel_id))"

text \<open>
  The conditions of lines 338 and 343 on the local variable \<open>channel_info\<close> (None while no
  assignment has bound it) and the row \<open>channel_details\<close>: the text of the warning when the
  channel refuses the client, None when it does not.
\<close>

definition channel_refuses :: "pydict option \<Rightarrow> pydict \<Rightarrow> exc + string option" where
  "channel_refuses channel_info_var channel_details =
     (case read_local channel_info_var of
        Inl e \<Rightarrow> Inl e
      | Inr channel_info \<Rightarrow>
          (case py_int_opt (channel_info ''channel_maxclients'') of
             Inl e \<Rightarrow> Inl e
           | Inr maxclients \<Rightarrow>
               (case (if maxclients \<noteq> - 1
                      then (case py_int_opt (channel_details ''total_clients'') of
                              Inl e \<Rightarrow> Inl e
                            | Inr total_clients \<Rightarrow> Inr (total_clients \<ge> maxclients))
                      else Inr False) of
                  Inl e \<Rightarrow> Inl e
                | Inr full \<Rightarrow>
                    if full
                    then Inr (Some ''Failed to move back the following client as the channel has already the maximum of clients: '')
                    else
                      (case py_int_opt (channel_info ''channel_flag_password'') of
                         Inl e \<Rightarrow> Inl e
                       | Inr pw \<Rightarrow>
                           Inr (if pw \<noteq> 0
                                then Some ''Failed to move back the following client as the channel has a password: ''
                                else None)))))"

text \<open>The messages of the handler of lines 352-363 for the error id of the exception.\<close>

definition move_back_failed_log :: "int \<Rightarrow> mover \<Rightarrow> mover" where
  "move_back_failed_log i st =
     (let st1 = (if i = 768
                 then log_msg ERROR ''Failed to move back the following client as the old channel does not exist anymore: '' st
                 else st);
          st2 = (if i = 777 \<or> i = 778
                 then log_msg ERROR ''Failed to move back the following client as the old channel has already the maximum of clients: '' st1
                 else st1)
      in if i = 781
         then log_msg ERROR ''Failed to move back the following client as the old channel has an unknown password: '' st2
         else log_msg EXCEPTION ''Failed to move back the following client: '' st2)"

text \<open>Lines 348-365: the move back to the origin and its handler.\<close>

definition try_move_back :: "config \<Rightarrow> ts3conn \<Rightarrow> int \<Rightarrow> int \<Rightarrow> mover \<Rightarrow> (exc + unit) \<times> mover" where
  "try_move_back cfg conn channel_id client_id st =
     (let r = clientmove conn (sent st) (py_str channel_id) client_id;
          st1 = record_sent (ClientMove (py_str channel_id) client_id) r st
      in case r of
           Inr u \<Rightarrow>
             (case client_channels st1 (py_str client_id) of
                None \<Rightarrow> (Inl KeyError, st1)
              | Some v \<Rightarrow>
                  (Inr (), st1\<lparr>client_channels := (client_channels st1)(py_str client_id := None)\<rparr>))
         | Inl e \<Rightarrow>
             (case e of
                TS3QueryException i m \<Rightarrow> fallback_action cfg conn client_id (move_back_failed_log i st1)
              | _ \<Rightarrow> (Inl e, st1)))"

text \<open>Lines 331-365: the channel's row, the check of its settings, the move.\<close>

definition check_and_move_back ::
  "config \<Rightarrow> ts3conn \<Rightarrow> pydict list \<Rightarrow> pydict option \<Rightarrow> int \<Rightarrow> int \<Rightarrow> mover \<Rightarrow> (exc + unit) \<times> mover" where
  "check_and_move_back cfg conn channel_list channel_info_var channel_id client_id st =
     (case find_channel channel_list channel_id of
        Inl e \<Rightarrow> (Inl e, st)
      | Inr channel_details \<Rightarrow>
          (case (if resp_channel_settings cfg then channel_details else None) of
             None \<Rightarrow> try_move_back cfg conn channel_id client_id st
           | Some details \<Rightarrow>
               (case channel_refuses channel_info_var details of
                  Inl e \<Rightarrow> (Inl e, st)
                | Inr (Some warning) \<Rightarrow> fallback_action cfg conn client_id (log_msg WARNING warning st)
                | Inr None \<Rightarrow> try_move_back cfg conn channel_id client_id st)))"

text \<open>
  The body of the loop of lines 312-365 for one client of the back list. \<open>channel_info\<close>
  is a local variable of the method, so a value bound for one client is still bound for
  the next: the body takes the variable and returns it.
\<close>

definition move_back_client ::
  "config \<Rightarrow> ts3conn \<Rightarrow> pydict list \<Rightarrow> pydict \<Rightarrow> pydict option \<Rightarrow> mover
     \<Rightarrow> (exc + unit) \<times> pydict option \<times> mover" where
  "move_back_client cfg conn channel_list client channel_info_var st =
     (case client ''clid'' of
        None \<Rightarrow> (Inr (), channel_info_var, st)
      | Some clid \<Rightarrow>
          (case client_channels st clid of
             None \<Rightarrow> (Inr (), channel_info_var, st)
           | Some origin \<Rightarrow>
               (let st1 = log_msg INFO ''Moving a client back!'' st
                in case py_int origin of
                     Inl e \<Rightarrow> (Inl e, channel_info_var, st1)
                   | Inr channel_id \<Rightarrow>
                       (case py_int clid of
                          Inl e \<Rightarrow> (Inl e, channel_info_var, st1)
                        | Inr client_id \<Rightarrow>
                            (let r = channelinfo conn (sent st1) channel_id;
                                 st2 = record_sent (ChannelInfo channel_id) r st1
                             in case r of
                                  Inr channel_info \<Rightarrow>
                                    (case check_and_move_back cfg conn channel_list (Some channel_info)
                                            channel_id client_id st2 of
                                       (res, st3) \<Rightarrow> (res, Some channel_info, st3))
                                | Inl e \<Rightarrow>
                                    (case e of
                                       TS3QueryException i m \<Rightarrow>
                                         if i = 768
                                         then (Inr (), channel_info_var,
                                               log_msg ERROR ''Failed to get channelinfo as the channel does not exist anymore: '' st2)
                                         else
                                           (case check_and_move_back cfg conn channel_list channel_info_var
                                                   channel_id client_id st2 of
                                              (res, st3) \<Rightarrow> (res, channel_info_var, st3))
                                     | _ \<Rightarrow> (Inl e, channel_info_var, st2)))))))"

fun move_back_loop ::
  "config \<Rightarrow> ts3conn \<Rightarrow> pydict list \<Rightarrow> pydict list \<Rightarrow> pydict option \<Rightarrow> mover \<Rightarrow> (exc + unit) \<times> mover" where
  "move_back_loop cfg conn channel_list [] channel_info_var st = (Inr (), st)"
| "move_back_loop cfg conn channel_list (client # rest) channel_info_var st =
     (case move_back_client cfg conn channel_list client channel_info_var st of
        (Inl e, v, st1) \<Rightarrow> (Inl e, st1)
      | (Inr u, v, st1) \<Rightarrow> move_back_loop cfg conn channel_list rest v st1)"

definition move_all_back :: "config \<Rightarrow> ts3conn \<Rightarrow> mover \<Rightarrow> (exc + unit) \<times> mover" where
  "move_all_back cfg conn st =
     (case get_back_list cfg st of
        (Inl e, st1) \<Rightarrow> (Inl e, st1)
      | (Inr back_list, st1) \<Rightarrow>
          (let r = channellist conn (sent st1);
               st2 = record_sent ChannelList r st1
           in case r of
                Inl e \<Rightarrow>
                  if is_TS3QueryException e
                  then (Inr (), log_msg ERROR ''Failed to get the current channellist: '' st2)
                  else (Inl e, st2)
              | Inr channel_list \<Rightarrow> move_back_loop cfg conn channel_list back_list None st2))"

subsection \<open>auto_move_all (lines 368-389)\<close>

text \<open>The handler of lines 382-386.\<close>

definition uncaught :: "mover \<Rightarrow> mover" where
  "uncaught st =
     log_msg ERROR ''Saved channel list keys are: ''
       (log_msg ERROR ''Traceback (most recent call last):''
         (log_msg ERROR []
           (log_msg ERROR ''Uncaught exception:'' st)))"

text \<open>One pass of the loop, lines 375-386: every exception ends in the handler.\<close>

definition tick :: "config \<Rightarrow> ts3conn \<Rightarrow> mover \<Rightarrow> mover" where
  "tick cfg conn st =
     (case update_client_list conn st of
        (Inl e, st1) \<Rightarrow> uncaught st1
      | (Inr u, st1) \<Rightarrow>
          (case (if enable_auto_move_back cfg then move_all_back cfg conn st1 else (Inr (), st1)) of
             (Inl e, st2) \<Rightarrow> uncaught st2
           | (Inr u, st2) \<Rightarrow>
               (case move_all_afk cfg conn st2 of
                  (Inl e, st3) \<Rightarrow> uncaught st3
                | (Inr u, st3) \<Rightarrow> st3)))"

text \<open>
  The loop runs one pass for each wait of \<open>check_frequency\<close> seconds that ends before the
  stop event is set; the number of such waits is given. After the loop the store is cleared.
\<close>

fun auto_move_all :: "config \<Rightarrow> ts3conn \<Rightarrow> nat \<Rightarrow> mover \<Rightarrow> mover" where
  "auto_move_all cfg conn 0 st = (log_msg WARNING ''AFKMover stopped!'' st)\<lparr>client_channels := Map.empty\<rparr>"
| "auto_move_all cfg conn (Suc n) st = auto_move_all cfg conn n (tick cfg conn st)"

section \<open>The module's functions\<close>

text \<open>
  \<open>client_left\<close> (lines 436-444), on the global \<open>idleMover\<close> (None when no mover runs)
  and the \<open>client_id\<close> of the event.
\<close>

definition client_left :: "int \<Rightarrow> mover option \<Rightarrow> mover option" where
  "client_left client_id idleMover =
     (case idleMover of
        None \<Rightarrow> None
      | Some m \<Rightarrow>
          if py_str client_id \<in> dom (client_channels m)
          then Some (m\<lparr>client_channels := (client_channels m)(py_str client_id := None)\<rparr>)
          else Some m)"

text \<open>
  \<open>IdleMover.__init__\<close> (lines 47-63), from the history of the connection and the log so far.
  When it raises there is no object; the state returned then carries the history and the log.
\<close>

definition IdleMover_init :: "config \<Rightarrow> ts3conn \<Rightarrow> history \<Rightarrow> (level \<times> string) list \<Rightarrow> (exc + unit) \<times> mover" where
  "IdleMover_init cfg conn h lg =
     (let st0 = \<lparr>afk_channel = [], client_channels = Map.empty, servergroup_ids_to_ignore = [],
                 idle_list = None, sent = h, logged = lg\<rparr>
      in case get_channel_by_name conn (channel_name cfg) st0 of
           (Inl e, st1) \<Rightarrow> (Inl e, st1)
         | (Inr channel, st1) \<Rightarrow>
             (case update_servergroup_ids_list cfg conn
                     (st1\<lparr>afk_channel := channel, client_channels := Map.empty\<rparr>) of
                (Inl e, st2) \<Rightarrow> (Inl e, st2)
              | (Inr u, st2) \<Rightarrow> (Inr (), st2\<lparr>idle_list := None\<rparr>)))"

section \<open>Example inputs\<close>

text \<open>The defaults of lines 21-29.\<close>

definition defaults :: config where
  "defaults = \<lparr>dry_run = False, servergroups_to_exclude = None, enable_auto_move_back = True,
                resp_channel_settings = True, fallback_channel = None, idle_time_seconds = 600,
                channel_name = ''AFK''\<rparr>"

text \<open>
  A server on which every command succeeds: no client, no group, channel 99 under every
  name, no channel in the list, no field in a channel's detail.
\<close>

definition quiet_conn :: ts3conn where
  "quiet_conn = \<lparr>clientlist = (\<lambda>h. Inr []), servergrouplist = (\<lambda>h. Inr []),
                  servergroupsbyclientid = (\<lambda>h cldbid. Inr []),
                  channelfind = (\<lambda>h name. Inr [[''cid'' \<mapsto> ''99'']]),
                  channellist = (\<lambda>h. Inr []), channelinfo = (\<lambda>h cid. Inr Map.empty),
                  clientmove = (\<lambda>h cid clid. Inr ())\<rparr>"

text \<open>A mover whose AFK channel is 99, right after its construction.\<close>

definition new_mover :: mover where
  "new_mover = \<lparr>afk_channel = ''99'', client_channels = Map.empty, servergroup_ids_to_ignore = [],
                 idle_list = None, sent = [], logged = []\<rparr>"

text \<open>Client 7 in channel \<open>cid\<close>, idle for \<open>idle\<close> milliseconds.\<close>

definition client7 :: "string \<Rightarrow> string \<Rightarrow> pydict" where
  "client7 cid idle = [''clid'' \<mapsto> ''7'', ''cid'' \<mapsto> cid, ''client_type'' \<mapsto> ''0'',
                       ''client_database_id'' \<mapsto> ''42'', ''client_idle_time'' \<mapsto> idle]"

text \<open>Client 7 is tracked, from channel 10.\<close>

definition tracked7 :: mover where
  "tracked7 = new_mover\<lparr>client_channels := [''7'' \<mapsto> ''10'']\<rparr>"

text \<open>The options with a fallback channel, and servers that refuse single commands.\<close>

definition lobby_cfg :: config where
  "lobby_cfg = defaults\<lparr>fallback_channel := Some ''Lobby''\<rparr>"

definition no_channelinfo_conn :: "int \<Rightarrow> ts3conn" where
  "no_channelinfo_conn i = quiet_conn\<lparr>channelinfo := (\<lambda>h cid. Inl (TS3QueryException i ''error''))\<rparr>"

definition no_move_conn :: "int \<Rightarrow> ts3conn" where
  "no_move_conn i = quiet_conn\<lparr>clientmove := (\<lambda>h cid clid. Inl (TS3QueryException i ''error''))\<rparr>"

text \<open>Channel 10 with five clients in the channel list, and the detail of a channel.\<close>

definition channel10 :: pydict where
  "channel10 = [''cid'' \<mapsto> ''10'', ''total_clients'' \<mapsto> ''5'']"

definition detail :: "string \<Rightarrow> string \<Rightarrow> pydict" where
  "detail maxclients flag = [''channel_maxclients'' \<mapsto> maxclients, ''channel_flag_password'' \<mapsto> flag]"

section \<open>What a step does to the store and to the connection\<close>

fun is_move :: "call \<Rightarrow> bool" where
  "is_move (ClientMove channel clid) = True"
| "is_move c = False"

text \<open>
  From \<open>st\<close> to \<open>st'\<close> nothing but queries went over the connection, and the store, the AFK
  channel, the ignored groups and the client list are as before.
\<close>

definition reads_only :: "mover \<Rightarrow> mover \<Rightarrow> bool" where
  "reads_only st st' \<longleftrightarrow>
     client_channels st' = client_channels st \<and> afk_channel st' = afk_channel st \<and>
     servergroup_ids_to_ignore st' = servergroup_ids_to_ignore st \<and> idle_list st' = idle_list st \<and>
     (\<exists>new. sent st' = sent st @ new \<and> list_all (\<lambda>x. \<not> is_move (fst x)) new)"

text \<open>Dry-run mode, and a mover whose client list holds client 7, idle for 700 seconds in channel 10.\<close>

definition dry_cfg :: config where
  "dry_cfg = defaults\<lparr>dry_run := True\<rparr>"

definition idle7 :: mover where
  "idle7 = new_mover\<lparr>idle_list := Some [client7 ''10'' ''700000'']\<rparr>"

section \<open>The candidates, in the words of the spec\<close>

text \<open>
  A return candidate: at the holding location, with an idle duration of at most the
  threshold. A client without location or idle time is none.
\<close>

definition return_candidate :: "config \<Rightarrow> string \<Rightarrow> pydict \<Rightarrow> bool" where
  "return_candidate cfg afk client =
     (case (client ''cid'', client ''client_idle_time'') of
        (Some cid, Some idle) \<Rightarrow>
          (case (py_int cid, py_int afk, py_int idle) of
             (Inr c, Inr a, Inr t) \<Rightarrow> c = a \<and> real_of_int t / 1000 \<le> idle_time_seconds cfg
           | _ \<Rightarrow> False)
      | _ \<Rightarrow> False)"

text \<open>
  The conditions of an idle candidate that are read off the client's row: not a
  ServerQuery client, outside the holding location, idle for longer than the threshold.
\<close>

definition idle_candidate :: "config \<Rightarrow> string \<Rightarrow> pydict \<Rightarrow> bool" where
  "idle_candidate cfg afk client =
     (case (client ''cid'', client ''client_idle_time'') of
        (Some cid, Some idle) \<Rightarrow>
          client ''client_type'' \<noteq> Some ''1'' \<and>
          (case (py_int cid, py_int afk, py_int idle) of
             (Inr c, Inr a, Inr t) \<Rightarrow> c \<noteq> a \<and> real_of_int t / 1000 > idle_time_seconds cfg
           | _ \<Rightarrow> False)
      | _ \<Rightarrow> False)"

text \<open>
  With excluded groups configured: the server, asked after the history \<open>h\<close>, puts the
  client in a group of the ignored ids.
\<close>

definition in_ignored_group ::
  "config \<Rightarrow> ts3conn \<Rightarrow> string option list \<Rightarrow> history \<Rightarrow> pydict \<Rightarrow> bool" where
  "in_ignored_group cfg conn ignored h client =
     (case servergroups_to_exclude cfg of
        None \<Rightarrow> False
      | Some names \<Rightarrow>
          (case servergroupsbyclientid conn h (py_fstr (client ''client_database_id'')) of
             Inl e \<Rightarrow> False
           | Inr groups \<Rightarrow> list_ex (\<lambda>g. g ''sgid'' \<in> set ignored) groups))"

text \<open>From \<open>st\<close> to \<open>st'\<close> messages were logged, and nothing else changed.\<close>

definition log_only :: "mover \<Rightarrow> mover \<Rightarrow> bool" where
  "log_only st st' \<longleftrightarrow> (\<exists>msgs. st' = st\<lparr>logged := logged st @ msgs\<rparr>)"

text \<open>
  Client 8, and movers whose client list holds client 7 alone, or client 7 idle for 700
  seconds in channel 10 and client 8 idle for one second in the AFK channel.
\<close>

definition client8 :: "string \<Rightarrow> string \<Rightarrow> pydict" where
  "client8 cid idle = [''clid'' \<mapsto> ''8'', ''cid'' \<mapsto> cid, ''client_type'' \<mapsto> ''0'',
                       ''client_database_id'' \<mapsto> ''43'', ''client_idle_time'' \<mapsto> idle]"

definition snapshot7 :: "string \<Rightarrow> string \<Rightarrow> mover" where
  "snapshot7 cid idle = new_mover\<lparr>idle_list := Some [client7 cid idle]\<rparr>"

definition mixed_mover :: mover where
  "mixed_mover = new_mover\<lparr>idle_list := Some [client7 ''10'' ''700000'', client8 ''99'' ''1000'']\<rparr>"

text \<open>
  From \<open>st\<close> to \<open>st'\<close> commands were sent, the AFK channel is as before, and every key of
  the store whose entry differs is accounted for: a key with a new entry by a move of that
  client to the AFK channel that returned, a key without entry by a move of that client
  that returned.
\<close>

definition justified :: "mover \<Rightarrow> mover \<Rightarrow> bool" where
  "justified st st' \<longleftrightarrow>
     afk_channel st' = afk_channel st \<and>
     (\<exists>new. sent st' = sent st @ new \<and>
        (\<forall>k. client_channels st' k \<noteq> client_channels st k \<longrightarrow>
           (case client_channels st' k of
              Some origin \<Rightarrow>
                \<exists>clid. py_int k = Inr clid \<and> (ClientMove (afk_channel st) clid, True) \<in> set new
            | None \<Rightarrow>
                \<exists>channel clid. py_str clid = k \<and> (ClientMove channel clid, True) \<in> set new)))"

text \<open>A server whose client list holds client 7, idle for 700 seconds in channel 10.\<close>

definition arriving_conn :: ts3conn where
  "arriving_conn = quiet_conn\<lparr>clientlist := (\<lambda>h. Inr [client7 ''10'' ''700000''])\<rparr>"

section \<open>Evaluation\<close>

lemmas py_defs = py_int_def strip_def is_space_def digit_of_def py_str_def str_nat.simps
  py_int_opt_def py_fstr_def py_get_def read_local_def

lemmas ex_defs = defaults_def quiet_conn_def new_mover_def client7_def tracked7_def lobby_cfg_def
  no_channelinfo_conn_def no_move_conn_def channel10_def detail_def dry_cfg_def idle7_def
  client8_def snapshot7_def mixed_mover_def

lemmas st_defs = log_msg_def record_sent_def

section \<open>Refreshing the excluded server groups\<close>

text \<open>
  C4. When a set of excluded groups is configured and \<open>servergrouplist\<close> raises the protocol
  error, the spec has the refresh log the failure and return with nothing excluded. The
  method logs, and then reads \<open>servergroup_list\<close>, which the handler left unbound: it
  raises UnboundLocalError, for every configuration, server and state.
\<close>

theorem update_servergroup_ids_list_raises:
  "update_servergroup_ids_list (cfg\<lparr>servergroups_to_exclude := Some names\<rparr>)
     (conn\<lparr>servergrouplist := (\<lambda>h. Inl (TS3QueryException i m))\<rparr>) st
   = (Inl UnboundLocalError,
      st\<lparr>servergroup_ids_to_ignore := [], sent := sent st @ [(ServerGroupList, False)],
         logged := logged st @ [(EXCEPTION, ''Failed to get the list of available servergroups.'')]\<rparr>)"
  by (simp add: update_servergroup_ids_list_def read_local_def st_defs)

section \<open>Moving clients back\<close>

text \<open>
  C5. Client 7 is tracked from channel 10, sits in the AFK channel and is active again;
  \<open>channelinfo\<close> for channel 10 raises error 768 (the channel is gone) and a fallback
  channel is configured. The spec has the pass log and go on to the fallback action. The
  pass logs and goes on to the next client: it sends no move, and the entry stays in the
  store, where the fallback action at that point would have moved the client to the
  fallback channel and removed the entry.
\<close>

theorem channelinfo_gone_skips_fallback:
  "move_all_back lobby_cfg (no_channelinfo_conn 768)
     (tracked7\<lparr>idle_list := Some [client7 ''99'' ''1000'']\<rparr>)
   = (Inr (), tracked7\<lparr>idle_list := Some [client7 ''99'' ''1000''],
        sent := [(ChannelList, True), (ChannelInfo 10, False)],
        logged := [(INFO, ''Moving a client back!''),
                   (ERROR, ''Failed to get channelinfo as the channel does not exist anymore: '')]\<rparr>)
   \<and> fallback_action lobby_cfg (no_channelinfo_conn 768) 7
       (tracked7\<lparr>sent := [(ChannelList, True), (ChannelInfo 10, False)]\<rparr>)
     = (Inr (), tracked7\<lparr>client_channels := Map.empty,
          sent := [(ChannelList, True), (ChannelInfo 10, False), (ChannelFind ''Lobby'', True),
                   (ClientMove ''99'' 7, True)]\<rparr>)"
  by (simp add: move_all_back_def get_back_list_def get_back_list_client_def move_back_client_def
        fallback_action_def get_channel_by_name_def py_defs ex_defs st_defs)

text \<open>
  C3. A return candidate is tracked under the decimal form of its clid, and the move back
  to its origin is attempted (lines 348-365). When \<open>clientmove\<close> returns, the entry of the
  candidate is removed from the store. When \<open>clientmove\<close> raises the protocol error, with
  whatever id, at least one message is logged at level ERROR and the fallback action is
  called for the client.
\<close>

theorem move_back_outcome:
  assumes tracked: "client_channels st clid = Some origin"
      and clid: "py_int clid = Inr client_id"
      and canonical: "py_str client_id = clid"
  shows "(clientmove conn (sent st) (py_str channel_id) client_id = Inr () \<longrightarrow>
           try_move_back cfg conn channel_id client_id st =
             (Inr (), st\<lparr>sent := sent st @ [(ClientMove (py_str channel_id) client_id, True)],
                         client_channels := (client_channels st)(clid := None)\<rparr>))
       \<and> (\<forall>i m. clientmove conn (sent st) (py_str channel_id) client_id = Inl (TS3QueryException i m) \<longrightarrow>
             (\<exists>msgs. msgs \<noteq> [] \<and> fst ` set msgs \<subseteq> {ERROR, EXCEPTION} \<and>
                try_move_back cfg conn channel_id client_id st =
                  fallback_action cfg conn client_id
                    (st\<lparr>sent := sent st @ [(ClientMove (py_str channel_id) client_id, False)],
                        logged := logged st @ msgs\<rparr>)))"
proof (intro conjI allI impI)
  assume ok: "clientmove conn (sent st) (py_str channel_id) client_id = Inr ()"
  show "try_move_back cfg conn channel_id client_id st =
             (Inr (), st\<lparr>sent := sent st @ [(ClientMove (py_str channel_id) client_id, True)],
                         client_channels := (client_channels st)(clid := None)\<rparr>)"
    using tracked canonical ok by (simp add: try_move_back_def st_defs)
next
  fix i m
  assume err: "clientmove conn (sent st) (py_str channel_id) client_id = Inl (TS3QueryException i m)"
  let ?st1 = "st\<lparr>sent := sent st @ [(ClientMove (py_str channel_id) client_id, False)]\<rparr>"
  have "\<exists>msgs. msgs \<noteq> [] \<and> fst ` set msgs \<subseteq> {ERROR, EXCEPTION} \<and>
          move_back_failed_log i ?st1 = ?st1\<lparr>logged := logged st @ msgs\<rparr>"
    by (rule exI[of _ "(if i = 768 then [(ERROR, ''Failed to move back the following client as the old channel does not exist anymore: '')] else [])
            @ (if i = 777 \<or> i = 778 then [(ERROR, ''Failed to move back the following client as the old channel has already the maximum of clients: '')] else [])
            @ (if i = 781 then [(ERROR, ''Failed to move back the following client as the old channel has an unknown password: '')]
               else [(EXCEPTION, ''Failed to move back the following client: '')])"])
       (simp add: move_back_failed_log_def st_defs)
  then obtain msgs where "msgs \<noteq> []" "fst ` set msgs \<subseteq> {ERROR, EXCEPTION}"
    "move_back_failed_log i ?st1 = ?st1\<lparr>logged := logged st @ msgs\<rparr>" by blast
  then show "\<exists>msgs. msgs \<noteq> [] \<and> fst ` set msgs \<subseteq> {ERROR, EXCEPTION} \<and>
                try_move_back cfg conn channel_id client_id st =
                  fallback_action cfg conn client_id
                    (st\<lparr>sent := sent st @ [(ClientMove (py_str channel_id) client_id, False)],
                        logged := logged st @ msgs\<rparr>)"
    using err by (intro exI[of _ msgs]) (simp add: try_move_back_def record_sent_def)
qed

text \<open>
  The theorem at client 7, tracked from channel 10: on a server that moves the client the
  entry is removed; on a server that answers the move with error 781 the client is moved
  to the fallback channel instead.
\<close>

theorem move_back_outcome_witness:
  "try_move_back lobby_cfg quiet_conn 10 7 tracked7 =
     (Inr (), tracked7\<lparr>sent := [(ClientMove ''10'' 7, True)], client_channels := Map.empty\<rparr>)
   \<and> (\<exists>msgs. msgs \<noteq> [] \<and>
        try_move_back lobby_cfg (no_move_conn 781) 10 7 tracked7 =
          fallback_action lobby_cfg (no_move_conn 781) 7
            (tracked7\<lparr>sent := [(ClientMove ''10'' 7, False)], logged := msgs\<rparr>))"
proof -
  have tracked: "client_channels tracked7 ''7'' = Some ''10''"
    by (simp add: ex_defs)
  have clid: "py_int ''7'' = Inr 7"
    by (simp add: py_defs)
  have canonical: "py_str 7 = ''7''"
    by (simp add: py_defs)
  have ten: "py_str 10 = ''10''"
    by (simp add: py_defs)
  have ok: "clientmove quiet_conn (sent tracked7) (py_str 10) 7 = Inr ()"
    by (simp add: ex_defs)
  have err: "clientmove (no_move_conn 781) (sent tracked7) (py_str 10) 7 = Inl (TS3QueryException 781 ''error'')"
    by (simp add: ex_defs)
  have s: "sent tracked7 = []" "logged tracked7 = []" "(client_channels tracked7)(''7'' := None) = Map.empty"
    by (simp_all add: ex_defs)
  from move_back_outcome [OF tracked clid canonical, of quiet_conn 10 lobby_cfg] ok
  have first: "try_move_back lobby_cfg quiet_conn 10 7 tracked7 =
     (Inr (), tracked7\<lparr>sent := [(ClientMove ''10'' 7, True)], client_channels := Map.empty\<rparr>)"
    by (simp add: s ten)
  from move_back_outcome [OF tracked clid canonical, of "no_move_conn 781" 10 lobby_cfg] err
  have "\<exists>msgs. msgs \<noteq> [] \<and>
        try_move_back lobby_cfg (no_move_conn 781) 10 7 tracked7 =
          fallback_action lobby_cfg (no_move_conn 781) 7
            (tracked7\<lparr>sent := [(ClientMove ''10'' 7, False)], logged := msgs\<rparr>)"
    by (simp add: s ten) blast
  with first show ?thesis by blast
qed



section \<open>Methods that only read\<close>

lemma reads_only_refl [simp]: "reads_only st st"
  by (simp add: reads_only_def)

lemma reads_only_trans: "reads_only a b \<Longrightarrow> reads_only b c \<Longrightarrow> reads_only a c"
  by (auto simp add: reads_only_def)

lemma reads_only_log [simp]: "reads_only st (log_msg l m st') = reads_only st st'"
  by (simp add: reads_only_def log_msg_def)

lemma reads_only_sent:
  "\<not> is_move c \<Longrightarrow> reads_only st st' \<Longrightarrow> reads_only st (record_sent c r st')"
  by (auto simp add: reads_only_def record_sent_def)

lemma get_servergroups_by_client_reads:
  "reads_only st (snd (get_servergroups_by_client conn cldbid st))"
  by (auto simp add: get_servergroups_by_client_def Let_def reads_only_sent split: sum.splits)

lemma client_is_in_group_reads:
  "reads_only st (snd (client_is_in_group cfg conn client st))"
  using get_servergroups_by_client_reads [of st conn "client ''client_database_id''"]
  by (auto simp add: client_is_in_group_def split: option.splits prod.splits sum.splits)

lemma get_idle_list_client_reads:
  "reads_only st (snd (get_idle_list_client cfg conn client st))"
  using client_is_in_group_reads [of st cfg conn client]
  by (auto simp add: get_idle_list_client_def split: option.splits prod.splits sum.splits)

lemma get_idle_list_loop_reads:
  "reads_only st (snd (get_idle_list_loop cfg conn clients acc st))"
proof (induction clients arbitrary: acc st)
  case Nil
  then show ?case by simp
next
  case (Cons client rest)
  obtain r st1 where step: "get_idle_list_client cfg conn client st = (r, st1)"
    by (cases "get_idle_list_client cfg conn client st")
  have r1: "reads_only st st1"
    using get_idle_list_client_reads [of st cfg conn client] step by simp
  show ?case
  proof (cases r)
    case (Inl e)
    with step r1 show ?thesis by simp
  next
    case (Inr keep)
    with step have "get_idle_list_loop cfg conn (client # rest) acc st =
        get_idle_list_loop cfg conn rest (if keep then acc @ [client] else acc) st1"
      by simp
    with r1 Cons.IH [of st1 "if keep then acc @ [client] else acc"] show ?thesis
      by (auto intro: reads_only_trans)
  qed
qed

lemma get_idle_list_reads: "reads_only st (snd (get_idle_list cfg conn st))"
  by (simp add: get_idle_list_def get_idle_list_loop_reads split: option.splits)

section \<open>Moving clients to the AFK channel\<close>

lemma move_to_afk_loop_dry:
  "dry_run cfg \<Longrightarrow> reads_only st (snd (move_to_afk_loop cfg conn idle st))"
proof (induction idle arbitrary: st)
  case Nil
  then show ?case by simp
next
  case (Cons client rest)
  from Cons.IH [OF Cons.prems, of "log_msg INFO ''I would have moved this client: '' st"]
  have "reads_only st (snd (move_to_afk_loop cfg conn rest (log_msg INFO ''I would have moved this client: '' st)))"
    by (simp add: reads_only_def log_msg_def)
  with Cons.prems show ?case by simp
qed

text \<open>
  C7. In dry-run mode \<open>move_to_afk\<close> leaves the store as it was and sends no move over the
  connection, whatever the client list and the server's answers, also when it raises.
\<close>

theorem dry_run_moves_nothing:
  assumes "dry_run cfg"
  shows "client_channels (snd (move_to_afk cfg conn st)) = client_channels st
       \<and> (\<exists>new. sent (snd (move_to_afk cfg conn st)) = sent st @ new
                 \<and> list_all (\<lambda>x. \<not> is_move (fst x)) new)"
proof -
  obtain r st1 where idle: "get_idle_list cfg conn st = (r, st1)"
    by (cases "get_idle_list cfg conn st")
  have r1: "reads_only st st1"
    using get_idle_list_reads [of st cfg conn] idle by simp
  have "reads_only st (snd (move_to_afk cfg conn st))"
  proof (cases r)
    case (Inl e)
    with idle r1 show ?thesis by (simp add: move_to_afk_def)
  next
    case (Inr idle_clients)
    with idle have "snd (move_to_afk cfg conn st) = snd (move_to_afk_loop cfg conn idle_clients st1)"
      by (simp add: move_to_afk_def)
    with r1 move_to_afk_loop_dry [OF assms, of st1 conn idle_clients] show ?thesis
      by (auto intro: reads_only_trans)
  qed
  then show ?thesis by (simp add: reads_only_def)
qed

text \<open>
  The theorem in dry-run mode with client 7 idle for 700 seconds: the client is a
  candidate, the store stays empty and nothing is sent.
\<close>

theorem dry_run_moves_nothing_witness:
  "fst (get_idle_list dry_cfg quiet_conn idle7) = Inr [client7 ''10'' ''700000'']
   \<and> client_channels (snd (move_to_afk dry_cfg quiet_conn idle7)) = Map.empty
   \<and> (\<exists>new. sent (snd (move_to_afk dry_cfg quiet_conn idle7)) = new
             \<and> list_all (\<lambda>x. \<not> is_move (fst x)) new)"
proof -
  have dry: "dry_run dry_cfg"
    by (simp add: ex_defs)
  have candidates: "fst (get_idle_list dry_cfg quiet_conn idle7) = Inr [client7 ''10'' ''700000'']"
    by (simp add: get_idle_list_def get_idle_list_client_def client_is_in_group_def py_defs ex_defs)
  have start: "client_channels idle7 = Map.empty" "sent idle7 = []"
    by (simp_all add: ex_defs)
  from dry_run_moves_nothing [OF dry, of quiet_conn idle7] candidates show ?thesis
    by (simp add: start)
qed

section \<open>The two candidate lists\<close>

lemma log_only_refl [simp]: "log_only st st"
  unfolding log_only_def by (rule exI[of _ "[]"]) simp

lemma log_only_trans: "log_only a b \<Longrightarrow> log_only b c \<Longrightarrow> log_only a c"
  by (auto simp add: log_only_def)

lemma log_only_log [simp]: "log_only st (log_msg l m st)"
  unfolding log_only_def log_msg_def by blast

lemma get_back_list_client_log: "log_only st (snd (get_back_list_client cfg client st))"
  by (simp add: get_back_list_client_def split: option.splits sum.splits)

lemma get_back_list_client_keep:
  "get_back_list_client cfg client st = (Inr keep, st') \<Longrightarrow>
     keep = return_candidate cfg (afk_channel st) client"
  by (auto simp add: get_back_list_client_def return_candidate_def
        split: option.splits sum.splits if_splits)

lemma log_only_afk: "log_only st st' \<Longrightarrow> afk_channel st' = afk_channel st"
  by (auto simp add: log_only_def)

lemma get_back_list_loop_result:
  "log_only st (snd (get_back_list_loop cfg clients acc st)) \<and>
   (\<forall>back. fst (get_back_list_loop cfg clients acc st) = Inr back \<longrightarrow>
      back = acc @ filter (return_candidate cfg (afk_channel st)) clients)"
proof (induction clients arbitrary: acc st)
  case Nil
  then show ?case by simp
next
  case (Cons client rest)
  obtain r st1 where step: "get_back_list_client cfg client st = (r, st1)"
    by (cases "get_back_list_client cfg client st")
  have l1: "log_only st st1"
    using get_back_list_client_log [of st cfg client] step by simp
  show ?case
  proof (cases r)
    case (Inl e)
    with step l1 show ?thesis by simp
  next
    case (Inr keep)
    have keep: "keep = return_candidate cfg (afk_channel st) client"
      using get_back_list_client_keep step Inr by blast
    have eq: "get_back_list_loop cfg (client # rest) acc st =
        get_back_list_loop cfg rest (if keep then acc @ [client] else acc) st1"
      using step Inr by simp
    from Cons.IH [of st1 "if keep then acc @ [client] else acc"] l1 keep
    show ?thesis
      unfolding eq by (auto intro: log_only_trans simp add: log_only_afk)
  qed
qed

lemma get_back_list_members:
  assumes "fst (get_back_list cfg st) = Inr back"
  shows "\<forall>c\<in>set back. return_candidate cfg (afk_channel st) c"
proof (cases "idle_list st")
  case None
  with assms show ?thesis by (simp add: get_back_list_def)
next
  case (Some clients)
  with assms have "fst (get_back_list_loop cfg clients [] st) = Inr back"
    by (simp add: get_back_list_def)
  with get_back_list_loop_result [of st cfg clients "[]"] show ?thesis by simp
qed



lemma client_is_in_group_result:
  "client_is_in_group cfg conn client st = (Inr b, st') \<Longrightarrow>
     b = in_ignored_group cfg conn (servergroup_ids_to_ignore st) (sent st) client"
  by (auto simp add: client_is_in_group_def in_ignored_group_def get_servergroups_by_client_def
        Let_def st_defs list_ex_iff split: option.splits sum.splits if_splits)

lemma get_idle_list_client_keep:
  assumes "get_idle_list_client cfg conn client st = (Inr keep, st')"
  shows "keep = (idle_candidate cfg (afk_channel st) client \<and>
                 \<not> in_ignored_group cfg conn (servergroup_ids_to_ignore st) (sent st) client)"
proof (cases "client ''cid''")
  case None
  with assms show ?thesis
    by (auto simp add: get_idle_list_client_def idle_candidate_def)
next
  case (Some cid)
  show ?thesis
  proof (cases "client ''client_type'' = Some ''1''")
    case True
    with Some assms show ?thesis
      by (auto simp add: get_idle_list_client_def idle_candidate_def split: option.splits)
  next
    case False
    obtain r st1 where grp: "client_is_in_group cfg conn client st = (r, st1)"
      by (cases "client_is_in_group cfg conn client st")
    have afk: "afk_channel st1 = afk_channel st"
      using client_is_in_group_reads [of st cfg conn client] grp by (simp add: reads_only_def)
    from assms Some False grp obtain b where r: "r = Inr b"
      by (cases r) (auto simp add: get_idle_list_client_def)
    have b: "b = in_ignored_group cfg conn (servergroup_ids_to_ignore st) (sent st) client"
      using client_is_in_group_result grp r by blast
    from assms Some False grp r b afk show ?thesis
      by (auto simp add: get_idle_list_client_def idle_candidate_def
            split: option.splits sum.splits if_splits)
  qed
qed


lemma get_idle_list_loop_result:
  "fst (get_idle_list_loop cfg conn clients acc st) = Inr idle \<Longrightarrow>
     set acc \<subseteq> set idle \<and>
     (\<forall>c\<in>set idle. c \<in> set acc \<or> (c \<in> set clients \<and> idle_candidate cfg (afk_channel st) c)) \<and>
     (\<forall>c\<in>set clients. idle_candidate cfg (afk_channel st) c \<and>
         (\<forall>h. \<not> in_ignored_group cfg conn (servergroup_ids_to_ignore st) h c) \<longrightarrow> c \<in> set idle)"
proof (induction clients arbitrary: acc st)
  case Nil
  then show ?case by simp
next
  case (Cons client rest)
  obtain r st1 where step: "get_idle_list_client cfg conn client st = (r, st1)"
    by (cases "get_idle_list_client cfg conn client st")
  from Cons.prems step obtain keep where r: "r = Inr keep"
    by (cases r) auto
  have same: "afk_channel st1 = afk_channel st"
      "servergroup_ids_to_ignore st1 = servergroup_ids_to_ignore st"
    using get_idle_list_client_reads [of st cfg conn client] step
    by (simp_all add: reads_only_def)
  have keep: "keep = (idle_candidate cfg (afk_channel st) client \<and>
        \<not> in_ignored_group cfg conn (servergroup_ids_to_ignore st) (sent st) client)"
    using get_idle_list_client_keep step r by blast
  let ?acc = "if keep then acc @ [client] else acc"
  have "fst (get_idle_list_loop cfg conn rest ?acc st1) = Inr idle"
    using Cons.prems step r by simp
  from Cons.IH [OF this] same
  have ih: "set ?acc \<subseteq> set idle"
    "\<forall>c\<in>set idle. c \<in> set ?acc \<or> (c \<in> set rest \<and> idle_candidate cfg (afk_channel st) c)"
    "\<forall>c\<in>set rest. idle_candidate cfg (afk_channel st) c \<and>
         (\<forall>h. \<not> in_ignored_group cfg conn (servergroup_ids_to_ignore st) h c) \<longrightarrow> c \<in> set idle"
    by simp_all
  have a: "set acc \<subseteq> set idle"
    using ih(1) by (auto split: if_splits)
  have b: "\<forall>c\<in>set idle. c \<in> set acc \<or> (c \<in> set (client # rest) \<and> idle_candidate cfg (afk_channel st) c)"
    using ih(2) keep by (auto split: if_splits)
  have c: "\<forall>c\<in>set (client # rest). idle_candidate cfg (afk_channel st) c \<and>
         (\<forall>h. \<not> in_ignored_group cfg conn (servergroup_ids_to_ignore st) h c) \<longrightarrow> c \<in> set idle"
    using ih(1) ih(3) keep by (auto split: if_splits)
  from a b c show ?case by blast
qed

lemma get_idle_list_result:
  assumes "fst (get_idle_list cfg conn st) = Inr idle"
  shows "(\<forall>c\<in>set idle. idle_candidate cfg (afk_channel st) c) \<and>
     (\<forall>clients c. idle_list st = Some clients \<and> c \<in> set clients \<and>
         idle_candidate cfg (afk_channel st) c \<and>
         (\<forall>h. \<not> in_ignored_group cfg conn (servergroup_ids_to_ignore st) h c) \<longrightarrow> c \<in> set idle)"
proof (cases "idle_list st")
  case None
  with assms show ?thesis by (simp add: get_idle_list_def)
next
  case (Some clients)
  with assms have "fst (get_idle_list_loop cfg conn clients [] st) = Inr idle"
    by (simp add: get_idle_list_def)
  from get_idle_list_loop_result [OF this] Some show ?thesis by auto
qed

lemma candidates_exclusive:
  "idle_candidate cfg afk c \<Longrightarrow> return_candidate cfg afk c \<Longrightarrow> False"
  by (auto simp add: idle_candidate_def return_candidate_def split: option.splits sum.splits)

text \<open>
  C10. The list of \<open>get_idle_list\<close> and the list of \<open>get_back_list\<close>, computed with the
  same AFK channel and options, have no client in common: a client of the first is outside the
  AFK channel, a client of the second is in it.
\<close>

theorem candidate_lists_disjoint:
  assumes idle: "fst (get_idle_list cfg conn st) = Inr idle"
      and returning: "fst (get_back_list cfg st2) = Inr back"
      and afk: "afk_channel st2 = afk_channel st"
  shows "set idle \<inter> set back = {}"
proof -
  have i: "\<forall>c\<in>set idle. idle_candidate cfg (afk_channel st) c"
    using get_idle_list_result [OF idle] by blast
  have b: "\<forall>c\<in>set back. return_candidate cfg (afk_channel st) c"
    using get_back_list_members [OF returning] afk by simp
  from i b candidates_exclusive show ?thesis by blast
qed



theorem candidate_lists_disjoint_witness:
  "fst (get_idle_list defaults quiet_conn mixed_mover) = Inr [client7 ''10'' ''700000'']
   \<and> fst (get_back_list defaults mixed_mover) = Inr [client8 ''99'' ''1000'']
   \<and> set [client7 ''10'' ''700000''] \<inter> set [client8 ''99'' ''1000''] = {}"
proof -
  have idle: "fst (get_idle_list defaults quiet_conn mixed_mover) = Inr [client7 ''10'' ''700000'']"
    by (simp add: get_idle_list_def get_idle_list_client_def client_is_in_group_def py_defs ex_defs st_defs)
  have returning: "fst (get_back_list defaults mixed_mover) = Inr [client8 ''99'' ''1000'']"
    by (simp add: get_back_list_def get_back_list_client_def py_defs ex_defs st_defs)
  from candidate_lists_disjoint [OF idle returning] idle returning show ?thesis
    by simp
qed


section \<open>The store changes only with a move\<close>

lemma log_msg_fields [simp]:
  "client_channels (log_msg l m st) = client_channels st"
  "afk_channel (log_msg l m st) = afk_channel st"
  "sent (log_msg l m st) = sent st"
  "idle_list (log_msg l m st) = idle_list st"
  "servergroup_ids_to_ignore (log_msg l m st) = servergroup_ids_to_ignore st"
  by (simp_all add: log_msg_def)

lemma record_sent_fields [simp]:
  "client_channels (record_sent c r st) = client_channels st"
  "afk_channel (record_sent c r st) = afk_channel st"
  "sent (record_sent c r st) = sent st @ [(c, \<not> isl r)]"
  "idle_list (record_sent c r st) = idle_list st"
  "servergroup_ids_to_ignore (record_sent c r st) = servergroup_ids_to_ignore st"
  by (simp_all add: record_sent_def)

lemma same_store_justified:
  "client_channels st' = client_channels st \<Longrightarrow> afk_channel st' = afk_channel st \<Longrightarrow>
   sent st' = sent st @ new \<Longrightarrow> justified st st'"
  by (auto simp add: justified_def)

lemma justified_refl [simp]: "justified st st"
  by (rule same_store_justified [of _ _ "[]"]) simp_all

lemma justified_trans:
  assumes ab: "justified a b" and bc: "justified b c"
  shows "justified a c"
proof -
  from ab obtain n1 where afk1: "afk_channel b = afk_channel a" and s1: "sent b = sent a @ n1"
    and j1: "\<And>k. client_channels b k \<noteq> client_channels a k \<Longrightarrow>
           (case client_channels b k of
              Some origin \<Rightarrow>
                \<exists>clid. py_int k = Inr clid \<and> (ClientMove (afk_channel a) clid, True) \<in> set n1
            | None \<Rightarrow>
                \<exists>channel clid. py_str clid = k \<and> (ClientMove channel clid, True) \<in> set n1)"
    unfolding justified_def by blast
  from bc obtain n2 where afk2: "afk_channel c = afk_channel b" and s2: "sent c = sent b @ n2"
    and j2: "\<And>k. client_channels c k \<noteq> client_channels b k \<Longrightarrow>
           (case client_channels c k of
              Some origin \<Rightarrow>
                \<exists>clid. py_int k = Inr clid \<and> (ClientMove (afk_channel b) clid, True) \<in> set n2
            | None \<Rightarrow>
                \<exists>channel clid. py_str clid = k \<and> (ClientMove channel clid, True) \<in> set n2)"
    unfolding justified_def by blast
  have s: "sent c = sent a @ (n1 @ n2)"
    using s1 s2 by simp
  have j: "\<forall>k. client_channels c k \<noteq> client_channels a k \<longrightarrow>
           (case client_channels c k of
              Some origin \<Rightarrow>
                \<exists>clid. py_int k = Inr clid \<and> (ClientMove (afk_channel a) clid, True) \<in> set (n1 @ n2)
            | None \<Rightarrow>
                \<exists>channel clid. py_str clid = k \<and> (ClientMove channel clid, True) \<in> set (n1 @ n2))"
  proof (intro allI impI)
    fix k assume d: "client_channels c k \<noteq> client_channels a k"
    show "case client_channels c k of
              Some origin \<Rightarrow>
                \<exists>clid. py_int k = Inr clid \<and> (ClientMove (afk_channel a) clid, True) \<in> set (n1 @ n2)
            | None \<Rightarrow>
                \<exists>channel clid. py_str clid = k \<and> (ClientMove channel clid, True) \<in> set (n1 @ n2)"
    proof (cases "client_channels c k = client_channels b k")
      case True
      with d have "client_channels b k \<noteq> client_channels a k" by simp
      from j1 [OF this] True show ?thesis
        by (auto split: option.splits)
    next
      case False
      from j2 [OF False] afk1 show ?thesis
        by (auto split: option.splits)
    qed
  qed
  from afk1 afk2 s j show ?thesis
    unfolding justified_def by auto
qed

lemma reads_only_justified: "reads_only st st' \<Longrightarrow> justified st st'"
  by (auto simp add: reads_only_def intro: same_store_justified)

lemma log_only_justified: "log_only st st' \<Longrightarrow> justified st st'"
  by (auto simp add: log_only_def intro: same_store_justified [of _ _ "[]"])

lemma justified_log: "justified st st' \<Longrightarrow> justified st (log_msg l m st')"
  by (erule justified_trans) (rule same_store_justified [of _ _ "[]"], simp_all)

lemma justified_query:
  "justified st st' \<Longrightarrow> justified st (record_sent c r st')"
  by (erule justified_trans) (rule same_store_justified [of _ _ "[(c, \<not> isl r)]"], simp_all)

lemma update_client_list_justified: "justified st (snd (update_client_list conn st))"
  by (rule same_store_justified [of _ _ "[(ClientList, \<not> isl (clientlist conn (sent st)))]"])
     (auto simp add: update_client_list_def Let_def split: sum.splits prod.splits)

lemma afk_move_justified:
  assumes "py_int k = Inr clid"
  shows "justified st
           ((record_sent (ClientMove (afk_channel st) clid) (Inr u :: exc + unit) st)
              \<lparr>client_channels := (client_channels st)(k \<mapsto> v)\<rparr>)"
  unfolding justified_def using assms
  by (intro conjI exI[of _ "[(ClientMove (afk_channel st) clid, True)]"]) auto

lemma removal_justified:
  "justified st
     ((record_sent (ClientMove channel clid) (Inr u :: exc + unit) st)
        \<lparr>client_channels := (client_channels st)(py_str clid := None)\<rparr>)"
  unfolding justified_def
  by (intro conjI exI[of _ "[(ClientMove channel clid, True)]"]) auto

lemma move_to_afk_loop_justified:
  "justified st (snd (move_to_afk_loop cfg conn idle st))"
proof (induction idle arbitrary: st)
  case Nil
  then show ?case by simp
next
  case (Cons client rest)
  show ?case
  proof (cases "dry_run cfg")
    case True
    have "justified st (log_msg INFO ''I would have moved this client: '' st)"
      by (rule justified_log) simp
    from justified_trans [OF this Cons.IH] True show ?thesis by simp
  next
    case False
    let ?st1 = "log_msg INFO ''Moving somebody to afk!'' st"
    let ?k = "py_get client ''clid'' ''-1''"
    have j1: "justified st ?st1"
      by (rule justified_log) simp
    show ?thesis
    proof (cases "py_int ?k")
      case (Inl e)
      with False j1 show ?thesis by simp
    next
      case (Inr clid)
      let ?r = "clientmove conn (sent ?st1) (afk_channel ?st1) clid"
      let ?st2 = "record_sent (ClientMove (afk_channel ?st1) clid) ?r ?st1"
      show ?thesis
      proof (cases ?r)
        case (Inl e)
        have j2: "justified st ?st2"
          by (rule justified_query) (rule j1)
        show ?thesis
        proof (cases "is_TS3Exception e")
          case True
          have "justified st (log_msg EXCEPTION ''Error moving client! Clid='' ?st2)"
            by (rule justified_log) (rule j2)
          from justified_trans [OF this Cons.IH] \<open>\<not> dry_run cfg\<close> Inr Inl True show ?thesis
            by (simp add: Let_def)
        next
          case no: False
          with \<open>\<not> dry_run cfg\<close> Inr Inl j2 show ?thesis
            by (simp add: Let_def)
        qed
      next
        case ok: (Inr u)
        let ?st3 = "?st2\<lparr>client_channels := (client_channels ?st2)(?k \<mapsto> py_get client ''cid'' ''0'')\<rparr>"
        have "justified ?st1 ?st3"
          using afk_move_justified [OF Inr, where st = ?st1 and u = u and v = "py_get client ''cid'' ''0''"] ok
          by simp
        with j1 have "justified st ?st3"
          by (rule justified_trans)
        from justified_trans [OF this Cons.IH] \<open>\<not> dry_run cfg\<close> Inr ok show ?thesis
          by (simp add: Let_def)
      qed
    qed
  qed
qed

lemma move_to_afk_justified: "justified st (snd (move_to_afk cfg conn st))"
proof -
  obtain r st1 where idle: "get_idle_list cfg conn st = (r, st1)"
    by (cases "get_idle_list cfg conn st")
  have j1: "justified st st1"
    using get_idle_list_reads [of st cfg conn] idle by (simp add: reads_only_justified)
  show ?thesis
  proof (cases r)
    case (Inl e)
    with idle j1 show ?thesis by (simp add: move_to_afk_def)
  next
    case (Inr clients)
    from justified_trans [OF j1 move_to_afk_loop_justified [of st1 cfg conn clients]] idle Inr
    show ?thesis by (simp add: move_to_afk_def)
  qed
qed

lemma move_all_afk_justified: "justified st (snd (move_all_afk cfg conn st))"
proof -
  obtain r st1 where m: "move_to_afk cfg conn st = (r, st1)"
    by (cases "move_to_afk cfg conn st")
  have j1: "justified st st1"
    using move_to_afk_justified [of st cfg conn] m by simp
  have "justified st (log_msg EXCEPTION ''Connection error!'' st1)"
    by (rule justified_log) (rule j1)
  with m j1 show ?thesis
    by (cases r) (simp_all add: move_all_afk_def)
qed

lemma get_channel_by_name_justified: "justified st (snd (get_channel_by_name conn name st))"
  by (auto simp add: get_channel_by_name_def Let_def justified_log justified_query
        split: sum.splits list.splits)

lemma fallback_except_justified:
  "justified st st' \<Longrightarrow> justified st (snd (fallback_except e st'))"
  by (simp add: fallback_except_def justified_log)

lemma fallback_action_justified: "justified st (snd (fallback_action cfg conn client_id st))"
proof (cases "fallback_channel cfg")
  case None
  then show ?thesis by (simp add: fallback_action_def)
next
  case (Some name)
  show ?thesis
  proof (cases "name = ''None''")
    case True
    with Some show ?thesis by (simp add: fallback_action_def)
  next
    case False
    obtain r st1 where g: "get_channel_by_name conn name st = (r, st1)"
      by (cases "get_channel_by_name conn name st")
    have j1: "justified st st1"
      using get_channel_by_name_justified [of st conn name] g by simp
    show ?thesis
    proof (cases r)
      case (Inl e)
      with Some False g fallback_except_justified [OF j1, of e] show ?thesis
        by (simp add: fallback_action_def)
    next
      case (Inr channel)
      let ?r = "clientmove conn (sent st1) channel client_id"
      let ?st2 = "record_sent (ClientMove channel client_id) ?r st1"
      have j2: "justified st ?st2"
        by (rule justified_query) (rule j1)
      show ?thesis
      proof (cases ?r)
        case bad: (Inl e)
        with Some False g Inr fallback_except_justified [OF j2, of e] show ?thesis
          by (simp add: fallback_action_def Let_def)
      next
        case ok: (Inr u)
        show ?thesis
        proof (cases "client_channels st1 (py_str client_id)")
          case None
          with Some False g Inr ok fallback_except_justified [OF j2, of KeyError] show ?thesis
            by (simp add: fallback_action_def Let_def)
        next
          case tracked: (Some v)
          have "justified st1 (?st2\<lparr>client_channels := (client_channels ?st2)(py_str client_id := None)\<rparr>)"
            using removal_justified [where st = st1 and channel = channel and clid = client_id and u = u] ok
            by simp
          with j1 have "justified st (?st2\<lparr>client_channels := (client_channels ?st2)(py_str client_id := None)\<rparr>)"
            by (rule justified_trans)
          with Some False g Inr ok tracked show ?thesis
            by (simp add: fallback_action_def Let_def)
        qed
      qed
    qed
  qed
qed

lemma move_back_failed_log_justified:
  "justified st st' \<Longrightarrow> justified st (move_back_failed_log i st')"
  by (simp add: move_back_failed_log_def Let_def justified_log)

lemma try_move_back_justified:
  "justified st (snd (try_move_back cfg conn channel_id client_id st))"
proof -
  let ?r = "clientmove conn (sent st) (py_str channel_id) client_id"
  let ?st1 = "record_sent (ClientMove (py_str channel_id) client_id) ?r st"
  have j1: "justified st ?st1"
    by (rule justified_query) simp
  show ?thesis
  proof (cases ?r)
    case (Inl e)
    show ?thesis
    proof (cases e)
      case (TS3QueryException i m)
      have "justified st (move_back_failed_log i ?st1)"
        by (rule move_back_failed_log_justified) (rule j1)
      from justified_trans [OF this fallback_action_justified] Inl TS3QueryException show ?thesis
        by (simp add: try_move_back_def Let_def)
    qed (use Inl j1 in \<open>simp_all add: try_move_back_def Let_def\<close>)
  next
    case ok: (Inr u)
    show ?thesis
    proof (cases "client_channels st (py_str client_id)")
      case None
      with ok j1 show ?thesis by (simp add: try_move_back_def Let_def)
    next
      case (Some v)
      have "justified st (?st1\<lparr>client_channels := (client_channels ?st1)(py_str client_id := None)\<rparr>)"
        using removal_justified [where st = st and channel = "py_str channel_id" and clid = client_id and u = u] ok
        by simp
      with ok Some show ?thesis by (simp add: try_move_back_def Let_def)
    qed
  qed
qed

lemma check_and_move_back_justified:
  "justified st (snd (check_and_move_back cfg conn channel_list v channel_id client_id st))"
proof -
  have f: "\<And>w. justified st (snd (fallback_action cfg conn client_id (log_msg WARNING w st)))"
    by (rule justified_trans [OF _ fallback_action_justified]) (rule justified_log, simp)
  show ?thesis
    by (auto simp add: check_and_move_back_def try_move_back_justified f
          split: sum.splits option.splits)
qed

lemma move_back_client_justified:
  "justified st (snd (snd (move_back_client cfg conn channel_list client v st)))"
proof (cases "client ''clid''")
  case None
  then show ?thesis by (simp add: move_back_client_def)
next
  case (Some clid)
  show ?thesis
  proof (cases "client_channels st clid")
    case None
    with Some show ?thesis by (simp add: move_back_client_def)
  next
    case tracked: (Some origin)
    let ?st1 = "log_msg INFO ''Moving a client back!'' st"
    have j1: "justified st ?st1"
      by (rule justified_log) simp
    show ?thesis
    proof (cases "py_int origin")
      case (Inl e)
      with Some tracked j1 show ?thesis by (simp add: move_back_client_def)
    next
      case (Inr channel_id)
      show ?thesis
      proof (cases "py_int clid")
        case bad: (Inl e)
        with Some tracked Inr j1 show ?thesis by (simp add: move_back_client_def)
      next
        case id: (Inr client_id)
        let ?r = "channelinfo conn (sent ?st1) channel_id"
        have j2: "\<And>r :: exc + pydict. justified st (record_sent (ChannelInfo channel_id) r ?st1)"
          by (rule justified_query) (rule j1)
        have c: "\<And>(r :: exc + pydict) w. justified st
                   (snd (check_and_move_back cfg conn channel_list w channel_id client_id
                           (record_sent (ChannelInfo channel_id) r ?st1)))"
          by (rule justified_trans [OF j2 check_and_move_back_justified])
        have l: "\<And>r :: exc + pydict. justified st
                   (log_msg ERROR ''Failed to get channelinfo as the channel does not exist anymore: ''
                      (record_sent (ChannelInfo channel_id) r ?st1))"
          by (rule justified_log) (rule j2)
        show ?thesis
        proof (cases ?r)
          case info: (Inr channel_info)
          with Some tracked Inr id c show ?thesis
            by (simp add: move_back_client_def Let_def case_prod_beta)
        next
          case err: (Inl e)
          show ?thesis
          proof (cases e)
            case (TS3QueryException i m)
            with Some tracked Inr id err c l show ?thesis
              by (simp add: move_back_client_def Let_def case_prod_beta)
          qed (use Some tracked Inr id err j2 in \<open>simp_all add: move_back_client_def Let_def\<close>)
        qed
      qed
    qed
  qed
qed

lemma move_back_loop_justified:
  "justified st (snd (move_back_loop cfg conn channel_list clients v st))"
proof (induction clients arbitrary: v st)
  case Nil
  then show ?case by simp
next
  case (Cons client rest)
  obtain r v1 st1 where step: "move_back_client cfg conn channel_list client v st = (r, v1, st1)"
    by (cases "move_back_client cfg conn channel_list client v st")
  have j1: "justified st st1"
    using move_back_client_justified [of st cfg conn channel_list client v] step by simp
  show ?case
  proof (cases r)
    case (Inl e)
    with step j1 show ?thesis by simp
  next
    case (Inr u)
    from justified_trans [OF j1 Cons.IH [of st1 v1]] step Inr show ?thesis by simp
  qed
qed

lemma move_all_back_justified: "justified st (snd (move_all_back cfg conn st))"
proof -
  obtain r st1 where g: "get_back_list cfg st = (r, st1)"
    by (cases "get_back_list cfg st")
  have "log_only st st1"
  proof (cases "idle_list st")
    case None
    with g show ?thesis by (simp add: get_back_list_def)
  next
    case (Some clients)
    with g get_back_list_loop_result [of st cfg clients "[]"] show ?thesis
      by (simp add: get_back_list_def)
  qed
  then have j1: "justified st st1"
    by (rule log_only_justified)
  let ?r = "channellist conn (sent st1)"
  let ?st2 = "record_sent ChannelList ?r st1"
  have j2: "justified st ?st2"
    by (rule justified_query) (rule j1)
  have j3: "justified st (log_msg ERROR ''Failed to get the current channellist: '' ?st2)"
    by (rule justified_log) (rule j2)
  have j4: "\<And>cl back. justified st (snd (move_back_loop cfg conn cl back None ?st2))"
    by (rule justified_trans [OF j2 move_back_loop_justified])
  show ?thesis
  proof (cases r)
    case (Inl e)
    with g j1 show ?thesis by (simp add: move_all_back_def)
  next
    case (Inr returning)
    with g j2 j3 j4 show ?thesis
      by (cases ?r) (simp_all add: move_all_back_def Let_def)
  qed
qed

lemma uncaught_justified: "justified st st' \<Longrightarrow> justified st (uncaught st')"
  by (simp add: uncaught_def justified_log)

lemma tick_justified: "justified st (tick cfg conn st)"
proof -
  obtain r1 st1 where u: "update_client_list conn st = (r1, st1)"
    by (cases "update_client_list conn st")
  have j1: "justified st st1"
    using update_client_list_justified [of st conn] u by simp
  show ?thesis
  proof (cases r1)
    case (Inl e)
    with u uncaught_justified [OF j1] show ?thesis by (simp add: tick_def)
  next
    case ok1: (Inr x)
    obtain r2 st2 where b: "(if enable_auto_move_back cfg then move_all_back cfg conn st1 else (Inr (), st1)) = (r2, st2)"
      by (cases "if enable_auto_move_back cfg then move_all_back cfg conn st1 else (Inr (), st1)")
    have "justified st1 st2"
      using move_all_back_justified [of st1 cfg conn] b by (auto split: if_splits)
    with j1 have j2: "justified st st2"
      by (rule justified_trans)
    show ?thesis
    proof (cases r2)
      case (Inl e)
      with u ok1 b uncaught_justified [OF j2] show ?thesis by (simp add: tick_def)
    next
      case ok2: (Inr y)
      obtain r3 st3 where a: "move_all_afk cfg conn st2 = (r3, st3)"
        by (cases "move_all_afk cfg conn st2")
      have "justified st2 st3"
        using move_all_afk_justified [of st2 cfg conn] a by simp
      with j2 have j3: "justified st st3"
        by (rule justified_trans)
      from u ok1 b ok2 a j3 uncaught_justified [OF j3] show ?thesis
        by (cases r3) (simp_all add: tick_def)
    qed
  qed
qed

lemma update_servergroup_ids_list_store:
  "client_channels (snd (update_servergroup_ids_list cfg conn st)) = client_channels st"
  by (simp add: update_servergroup_ids_list_def Let_def read_local_def split: option.splits sum.splits)

lemma get_channel_by_name_store:
  "client_channels (snd (get_channel_by_name conn name st)) = client_channels st"
  by (simp add: get_channel_by_name_def Let_def split: sum.splits list.splits)

lemma IdleMover_init_store:
  "client_channels (snd (IdleMover_init cfg conn h lg)) = Map.empty"
proof -
  let ?st0 = "\<lparr>afk_channel = [], client_channels = Map.empty, servergroup_ids_to_ignore = [],
                 idle_list = None, sent = h, logged = lg\<rparr>"
  obtain r st1 where g: "get_channel_by_name conn (channel_name cfg) ?st0 = (r, st1)"
    by (cases "get_channel_by_name conn (channel_name cfg) ?st0")
  have e1: "client_channels st1 = Map.empty"
    using get_channel_by_name_store [of conn "channel_name cfg" ?st0] g by simp
  show ?thesis
  proof (cases r)
    case (Inl e)
    with g e1 show ?thesis by (simp add: IdleMover_init_def)
  next
    case (Inr channel)
    let ?st = "st1\<lparr>afk_channel := channel, client_channels := Map.empty\<rparr>"
    obtain r2 st2 where u: "update_servergroup_ids_list cfg conn ?st = (r2, st2)"
      by (cases "update_servergroup_ids_list cfg conn ?st")
    have "client_channels st2 = Map.empty"
      using update_servergroup_ids_list_store [of cfg conn ?st] u by simp
    with g Inr u show ?thesis
      by (cases r2) (simp_all add: IdleMover_init_def)
  qed
qed

lemma auto_move_all_store: "client_channels (auto_move_all cfg conn n st) = Map.empty"
  by (induction n arbitrary: st) simp_all

lemma client_left_store:
  "client_left client_id (Some m) = Some (m\<lparr>client_channels := (client_channels m)(py_str client_id := None)\<rparr>)"
proof (cases "client_channels m (py_str client_id)")
  case None
  then have "(client_channels m)(py_str client_id := None) = client_channels m"
    by (simp add: fun_upd_idem)
  with None show ?thesis by (simp add: client_left_def dom_def)
next
  case (Some v)
  then show ?thesis by (simp add: client_left_def dom_def)
qed


lemma tick_arriving:
  "tick defaults arriving_conn new_mover =
     new_mover\<lparr>idle_list := Some [client7 ''10'' ''700000''],
                client_channels := [''7'' \<mapsto> ''10''],
                sent := [(ClientList, True), (ChannelList, True), (ClientMove ''99'' 7, True)],
                logged := [(INFO, ''Moving somebody to afk!'')]\<rparr>"
  by (simp add: tick_def update_client_list_def move_all_back_def get_back_list_def
        get_back_list_client_def move_all_afk_def move_to_afk_def get_idle_list_def
        get_idle_list_client_def client_is_in_group_def arriving_conn_def py_defs ex_defs st_defs)


end
